theory Spec2Isabelle
  imports Main "HOL-Library.Sublist"
begin

section \<open>Data model (types/index.ts)\<close>

text \<open>
  The interfaces of the source become records. Field names follow the source; where two
  interfaces share a field name (\<open>name\<close>, \<open>_id\<close>, \<open>ingredients\<close>) the record's own
  prefix is added, and \<open>_id\<close> is written \<open>..._id\<close> since an Isabelle name cannot start
  with an underscore. JavaScript strings are modelled as \<open>string\<close> (lists of 8-bit
  characters), and the integers that occur (list indices, the step counter) as \<open>int\<close>.
\<close>

record recipeIngredient =
  ri_name :: string
  ri_quantity :: string

record additionalInformation =
  tips :: string
  variations :: string
  servingSuggestions :: string
  nutritionalInformation :: string

record recipe =
  name :: string
  ingredients :: "recipeIngredient list"
  instructions :: "string list"
  dietaryPreference :: "string list"
  additionalInformation :: additionalInformation
  openaiPromptId :: string

text \<open>
  The \<open>owner\<close> and \<open>likedBy\<close> entries of an \<open>ExtendedRecipe\<close>. The declared type has the
  three properties \<open>_id\<close>, \<open>name\<close>, \<open>image\<close>; the populated documents that reach
  \<open>filterResults\<close> at run time may carry more, which is why the source copies exactly
  these three. \<open>user_extra\<close> holds whatever other properties the object has.
\<close>

record userRef =
  user_id :: string
  user_name :: string
  user_image :: string
  user_extra :: "(string \<times> string) list"

record extendedRecipe = recipe +
  recipe_id :: string
  imgLink :: string
  owner :: userRef
  createdAt :: string
  updatedAt :: string
  likedBy :: "userRef list"
  owns :: bool
  liked :: bool

section \<open>JavaScript library functions used by the source\<close>

text \<open>\<open>Array.prototype.findIndex\<close>: the index of the first element satisfying the
  predicate, \<open>-1\<close> when there is none.\<close>

fun findIndex :: "('a \<Rightarrow> bool) \<Rightarrow> 'a list \<Rightarrow> int" where
  "findIndex p [] = - 1"
| "findIndex p (x # xs) =
     (if p x then 0 else (let i = findIndex p xs in if i < 0 then - 1 else i + 1))"

text \<open>\<open>Array.prototype.slice(start, end)\<close>: a negative index counts from the end of the
  array, and both indices are clamped to the array.\<close>

definition slice :: "'a list \<Rightarrow> int \<Rightarrow> int \<Rightarrow> 'a list" where
  "slice xs start fin =
     (let n = int (length xs);
          k = (if start < 0 then max (n + start) 0 else min start n);
          f = (if fin < 0 then max (n + fin) 0 else min fin n)
      in take (nat (f - k)) (drop (nat k) xs))"

text \<open>\<open>slice(start)\<close> with the end omitted runs to the end of the array.\<close>

definition slice_from :: "'a list \<Rightarrow> int \<Rightarrow> 'a list" where
  "slice_from xs start = slice xs start (int (length xs))"

text \<open>\<open>String.prototype.toLowerCase\<close> on the code points that an 8-bit character holds
  (Latin-1): the letters A to Z and the capitals from 0xC0 to 0xDE other than the
  multiplication sign 0xD7 are moved up by 32; every other character is left as it is.\<close>

definition toLowerChar :: "char \<Rightarrow> char" where
  "toLowerChar c =
     (let n = (of_char c :: nat)
      in if (65 \<le> n \<and> n \<le> 90) \<or> (192 \<le> n \<and> n \<le> 222 \<and> n \<noteq> 215)
         then char_of (n + 32) else c)"

definition toLowerCase :: "string \<Rightarrow> string" where
  "toLowerCase s = map toLowerChar s"

text \<open>\<open>String.prototype.includes\<close> (here \<open>str_includes\<close>): the argument occurs as a contiguous substring.\<close>

fun str_includes :: "string \<Rightarrow> string \<Rightarrow> bool" where
  "str_includes [] sub = (sub = [])"
| "str_includes (c # cs) sub = (prefix sub (c # cs) \<or> str_includes cs sub)"

text \<open>\<open>String.prototype.trim\<close>: white space is removed from both ends. The white-space
  characters representable in 8 bits are TAB, LF, VT, FF, CR, SP and NBSP.\<close>

definition isWhiteSpace :: "char \<Rightarrow> bool" where
  "isWhiteSpace c = ((of_char c :: nat) \<in> {9, 10, 11, 12, 13, 32, 160})"

definition trim :: "string \<Rightarrow> string" where
  "trim s = rev (dropWhile isWhiteSpace (rev (dropWhile isWhiteSpace s)))"

section \<open>utils/utils.ts\<close>

text \<open>The object literal \<open>({ _id, name, image })\<close> built from a destructured user.\<close>

definition simplifyUser :: "userRef \<Rightarrow> userRef" where
  "simplifyUser u =
     \<lparr>user_id = user_id u, user_name = user_name u, user_image = user_image u,
      user_extra = []\<rparr>"

definition filterResults :: "extendedRecipe list \<Rightarrow> string \<Rightarrow> extendedRecipe list" where
  "filterResults recipes userId =
     map (\<lambda>recipe. recipe
            \<lparr>owner := simplifyUser (owner recipe),
             likedBy := map simplifyUser (likedBy recipe),
             owns := (user_id (owner recipe) = userId),
             liked := list_ex (\<lambda>l. user_id l = userId) (likedBy recipe)\<rparr>) recipes"

text \<open>
  \<open>newRecipe\<close> is \<open>ExtendedRecipe | null\<close> and \<open>deleteId\<close> is an optional argument
  (\<open>undefined\<close> when omitted, which is \<open>===\<close> to no string): both are options.
\<close>

definition updateRecipeList ::
  "extendedRecipe list \<Rightarrow> extendedRecipe option \<Rightarrow> string option \<Rightarrow> extendedRecipe list" where
  "updateRecipeList oldList newRecipe deleteId =
     (let wanted = (case newRecipe of Some r \<Rightarrow> Some (recipe_id r) | None \<Rightarrow> deleteId);
          indexOfUpdate = findIndex (\<lambda>p. Some (recipe_id p) = wanted) oldList
      in case newRecipe of
           Some r \<Rightarrow>
             slice oldList 0 indexOfUpdate @ [r] @ slice_from oldList (indexOfUpdate + 1)
         | None \<Rightarrow>
             slice oldList 0 indexOfUpdate @ slice_from oldList (indexOfUpdate + 1))"

text \<open>\<open>search\<close> is \<open>string | null\<close>; \<open>!search\<close> holds for \<open>null\<close> and for the empty
  string. The query is used as it is passed; only the fields are lower-cased.\<close>

definition getFilteredRecipes ::
  "extendedRecipe list \<Rightarrow> string option \<Rightarrow> extendedRecipe list" where
  "getFilteredRecipes recipes search =
     (case search of
        None \<Rightarrow> recipes
      | Some q \<Rightarrow>
          if q = [] then recipes
          else filter (\<lambda>r.
                 let isFoundInName = str_includes (toLowerCase (name r)) q;
                     isFoundInIngredients =
                       filter (\<lambda>ingredient. str_includes (toLowerCase (ri_name ingredient)) q)
                         (ingredients r);
                     isFoundInDiets =
                       filter (\<lambda>diet. str_includes (toLowerCase diet) q) (dietaryPreference r)
                 in isFoundInName \<or> length isFoundInIngredients \<noteq> 0
                      \<or> length isFoundInDiets \<noteq> 0) recipes)"

text \<open>\<open>handleSearch\<close> of the Home page, the caller of \<open>getFilteredRecipes\<close>: it trims and
  lower-cases the search box's value before passing it on.\<close>

definition handleSearch :: "extendedRecipe list \<Rightarrow> string \<Rightarrow> extendedRecipe list" where
  "handleSearch latestRecipes searchVal =
     getFilteredRecipes latestRecipes (Some (toLowerCase (trim searchVal)))"

section \<open>pages/CreateRecipe.tsx: the step counter\<close>

definition steps :: "string list" where
  "steps = [''Choose Ingredients'', ''Choose Diet'', ''Review and Create Recipes'',
            ''Select Recipes'', ''Review and Save Recipes'']"

definition updateStep :: "int \<Rightarrow> int \<Rightarrow> int" where
  "updateStep step val =
     (let newStep = step + val
      in if newStep < 0 \<or> newStep \<ge> int (length steps) then 0 else newStep)"

section \<open>pages/CreateRecipe.tsx: the recipe-creation wizard\<close>

record ingredient =
  ing_name :: string
  ing_quantity :: "int option"
  ing_id :: string

datatype DietaryPreference = Vegetarian | Vegan | GlutenFree | Keto | Paleo

text \<open>
  The \<open>useState\<close> cells of \<open>Navigation\<close>. \<open>pushed\<close> is not a state cell: it lists the
  targets of \<open>router.push\<close>, in order.
\<close>

record navigation =
  step :: int
  nav_ingredients :: "ingredient list"
  preferences :: "DietaryPreference list"
  generatedRecipes :: "recipe list"
  selectedRecipeIds :: "string list"
  isLoading :: bool
  pushed :: "string list"

text \<open>\<open>await call_api(...)\<close> either throws (the promise is rejected: network error or a
  non-2xx status) or returns the response's data.\<close>

datatype 'a api_result = Rejected | Resolved 'a

text \<open>
  The data of \<open>/api/generate-recipes\<close>. \<open>gen_recipes\<close> is the value of
  \<open>JSON.parse(recipes)\<close> when that is an array of recipes, and \<open>None\<close> when \<open>JSON.parse\<close>
  or the following \<open>.map\<close> throws.
\<close>

record generateResponse =
  gen_recipes :: "recipe list option"
  gen_openaiPromptId :: string

text \<open>The decimal digits that a template literal prints for an array index.\<close>

definition digitChar :: "nat \<Rightarrow> char" where
  "digitChar n = char_of (48 + n)"

fun numberToString :: "nat \<Rightarrow> string" where
  "numberToString n =
     (if n < 10 then [digitChar n] else numberToString (n div 10) @ [digitChar (n mod 10)])"

declare numberToString.simps [simp del]

text \<open>The client key \<open>`${openaiPromptId}-${idx}`\<close>.\<close>

definition clientKey :: "string \<Rightarrow> nat \<Rightarrow> string" where
  "clientKey promptId idx = promptId @ ''-'' @ numberToString idx"

definition tagRecipes :: "string \<Rightarrow> recipe list \<Rightarrow> recipe list" where
  "tagRecipes promptId parsedRecipes =
     map (\<lambda>(idx, recipe). recipe\<lparr>openaiPromptId := clientKey promptId idx\<rparr>)
       (enumerate 0 parsedRecipes)"

text \<open>
  A handler is run on the state \<open>s\<close> of the render whose closure it is, together with the
  outcome of its one network call, and returns the state after the handler has finished.
  A rejected call (or a throwing \<open>JSON.parse\<close>) jumps to the \<open>catch\<close> block, which only
  logs.
  No other event is interleaved between the start of the call and its outcome.
\<close>

definition handleIngredientSubmit ::
  "navigation \<Rightarrow> generateResponse api_result \<Rightarrow> navigation" where
  "handleIngredientSubmit s outcome =
     (let s1 = s\<lparr>isLoading := True\<rparr>
      in case outcome of
           Rejected \<Rightarrow> s1
         | Resolved resp \<Rightarrow>
             (case gen_recipes resp of
                None \<Rightarrow> s1
              | Some parsedRecipes \<Rightarrow>
                  s1\<lparr>isLoading := False,
                     generatedRecipes := tagRecipes (gen_openaiPromptId resp) parsedRecipes,
                     step := step s + 1\<rparr>))"

text \<open>\<open>recipes\<close> is the payload of the call to \<open>/api/save-recipes\<close>; the data of the
  response is not used.\<close>

definition handleRecipeSubmit ::
  "navigation \<Rightarrow> recipe list \<Rightarrow> unit api_result \<Rightarrow> navigation" where
  "handleRecipeSubmit s recipes outcome =
     (let s1 = s\<lparr>isLoading := True\<rparr>
      in case outcome of
           Rejected \<Rightarrow> s1
         | Resolved _ \<Rightarrow>
             s1\<lparr>isLoading := False, nav_ingredients := [], preferences := [],
                generatedRecipes := [], selectedRecipeIds := [], step := 0,
                pushed := pushed s @ [''/Profile'']\<rparr>)"

subsection \<open>The handlers of the step components\<close>

text \<open>\<open>IngredientForm.handleChange\<close>; \<open>val\<close> is \<open>string | undefined\<close> and \<open>newId\<close> the
  value of \<open>uuidv4()\<close>.\<close>

definition handleChange :: "ingredient list \<Rightarrow> string option \<Rightarrow> string \<Rightarrow> ingredient list" where
  "handleChange ings val newId =
     (case val of
        None \<Rightarrow> ings
      | Some v \<Rightarrow>
          if v = [] then ings
          else if list_ex (\<lambda>i. ing_name i = v) ings then ings
          else ings @ [\<lparr>ing_name = v, ing_quantity = None, ing_id = newId\<rparr>])"

definition deleteIngredient :: "recipe list \<Rightarrow> ingredient list \<Rightarrow> string \<Rightarrow> ingredient list" where
  "deleteIngredient generated ings i =
     (if length generated \<noteq> 0 then ings else filter (\<lambda>ingredient. ing_id ingredient \<noteq> i) ings)"

definition handlePreferenceChange ::
  "DietaryPreference list \<Rightarrow> DietaryPreference \<Rightarrow> DietaryPreference list" where
  "handlePreferenceChange prefs option =
     (if option \<in> set prefs then filter (\<lambda>p. p \<noteq> option) prefs else prefs @ [option])"

definition handleRecipeSelection :: "string list \<Rightarrow> string \<Rightarrow> string list" where
  "handleRecipeSelection selected recipeId =
     (if recipeId \<in> set selected then filter (\<lambda>p. p \<noteq> recipeId) selected
      else selected @ [recipeId])"

definition handleSelectAll :: "recipe list \<Rightarrow> string list" where
  "handleSelectAll generated = map openaiPromptId generated"

text \<open>\<open>finalRecipes\<close> of \<open>ReviewRecipesComponent\<close>, as its effect sets it.\<close>

definition finalRecipes :: "recipe list \<Rightarrow> string list \<Rightarrow> recipe list" where
  "finalRecipes generated selected =
     filter (\<lambda>recipe. openaiPromptId recipe \<in> set selected) generated"

subsection \<open>Which controls are enabled\<close>

text \<open>The \<open>disabled\<close> attributes of the Prev and Next buttons, of the Edit and Create
  Recipes buttons of \<open>ReviewComponent\<close>, and of the ingredient and preference inputs.\<close>

definition prevDisabled :: "navigation \<Rightarrow> bool" where
  "prevDisabled s = (step s = 0)"

definition nextDisabled :: "navigation \<Rightarrow> bool" where
  "nextDisabled s =
     (step s = int (length steps) - 1 \<or> (step s = 2 \<and> length (generatedRecipes s) = 0))"

definition editDisabled :: "navigation \<Rightarrow> bool" where
  "editDisabled s = (length (generatedRecipes s) \<noteq> 0)"

definition createRecipesDisabled :: "navigation \<Rightarrow> bool" where
  "createRecipesDisabled s =
     (length (nav_ingredients s) < 3 \<or> length (generatedRecipes s) \<noteq> 0)"

definition inputsDisabled :: "navigation \<Rightarrow> bool" where
  "inputsDisabled s = (length (generatedRecipes s) \<noteq> 0)"

text \<open>\<open>StepComponent\<close> is rendered only while \<open>isLoading\<close> is false, and shows the
  component of the current step.\<close>

definition rendered :: "navigation \<Rightarrow> int \<Rightarrow> bool" where
  "rendered s n = (\<not> isLoading s \<and> step s = n)"

subsection \<open>User events\<close>

text \<open>
  One constructor per control of the wizard. \<open>SelectIngredient\<close> carries the chosen name
  and the fresh uuid, \<open>CreateRecipes\<close> and \<open>SubmitSelected\<close> the outcome of the network
  call they start. \<open>fire\<close> returns \<open>None\<close> when the control is disabled or not rendered
  in the state, and the whole wizard is replaced by \<open>LimitReached\<close> when \<open>reachedLimit\<close>
  holds. The preference check boxes are additionally disabled by the component-local
  flag \<open>noPreference\<close>, which is not tracked: the model allows every run of the interface
  and possibly more.
\<close>

datatype event =
    Prev
  | Next
  | SelectIngredient "string option" string
  | DeleteIngredient string
  | TogglePreference DietaryPreference
  | NoPreference
  | Edit
  | CreateRecipes "generateResponse api_result"
  | ToggleRecipe string
  | SelectAll
  | UnselectAll
  | SubmitSelected "unit api_result"

fun handle :: "navigation \<Rightarrow> event \<Rightarrow> navigation option" where
  "handle s Prev =
     (if prevDisabled s then None else Some (s\<lparr>step := updateStep (step s) (- 1)\<rparr>))"
| "handle s Next =
     (if nextDisabled s then None else Some (s\<lparr>step := updateStep (step s) 1\<rparr>))"
| "handle s (SelectIngredient val newId) =
     (if rendered s 0 \<and> \<not> inputsDisabled s
      then Some (s\<lparr>nav_ingredients := handleChange (nav_ingredients s) val newId\<rparr>)
      else None)"
| "handle s (DeleteIngredient i) =
     (if rendered s 0
      then Some (s\<lparr>nav_ingredients := deleteIngredient (generatedRecipes s) (nav_ingredients s) i\<rparr>)
      else None)"
| "handle s (TogglePreference option) =
     (if rendered s 1 \<and> \<not> inputsDisabled s
      then Some (s\<lparr>preferences := handlePreferenceChange (preferences s) option\<rparr>)
      else None)"
| "handle s NoPreference =
     (if rendered s 1 \<and> \<not> inputsDisabled s then Some (s\<lparr>preferences := []\<rparr>) else None)"
| "handle s Edit =
     (if rendered s 2 \<and> \<not> editDisabled s then Some (s\<lparr>step := 0\<rparr>) else None)"
| "handle s (CreateRecipes outcome) =
     (if rendered s 2 \<and> \<not> createRecipesDisabled s
      then Some (handleIngredientSubmit s outcome) else None)"
| "handle s (ToggleRecipe recipeId) =
     (if rendered s 3 \<and> recipeId \<in> set (map openaiPromptId (generatedRecipes s))
      then Some (s\<lparr>selectedRecipeIds := handleRecipeSelection (selectedRecipeIds s) recipeId\<rparr>)
      else None)"
| "handle s SelectAll =
     (if rendered s 3 then Some (s\<lparr>selectedRecipeIds := handleSelectAll (generatedRecipes s)\<rparr>)
      else None)"
| "handle s UnselectAll =
     (if rendered s 3 then Some (s\<lparr>selectedRecipeIds := []\<rparr>) else None)"
| "handle s (SubmitSelected outcome) =
     (if rendered s 4 \<and> length (finalRecipes (generatedRecipes s) (selectedRecipeIds s)) \<noteq> 0
      then Some (handleRecipeSubmit s
                   (finalRecipes (generatedRecipes s) (selectedRecipeIds s)) outcome)
      else None)"

definition fire :: "bool \<Rightarrow> navigation \<Rightarrow> event \<Rightarrow> navigation option" where
  "fire reachedLimit s e = (if reachedLimit then None else handle s e)"

text \<open>
  The state after mounting. \<open>oldIngredients\<close> holds the names of the query parameter
  paired with the uuids generated for them when the parameter is an array, and \<open>None\<close>
  otherwise; the effect that reads it runs once the query is known.
\<close>

definition mount :: "(string \<times> string) list option \<Rightarrow> navigation" where
  "mount oldIngredients =
     \<lparr>step = 0,
      nav_ingredients =
        (case oldIngredients of
           None \<Rightarrow> []
         | Some olds \<Rightarrow> map (\<lambda>(i, u). \<lparr>ing_name = i, ing_quantity = None, ing_id = u\<rparr>) olds),
      preferences = [], generatedRecipes = [], selectedRecipeIds = [],
      isLoading = False, pushed = []\<rparr>"

text \<open>A run of the wizard: the events are fired in order, and the run is impossible
  (\<open>None\<close>) as soon as one of them is not available.\<close>

fun run :: "bool \<Rightarrow> navigation \<Rightarrow> event list \<Rightarrow> navigation option" where
  "run reachedLimit s [] = Some s"
| "run reachedLimit s (e # es) =
     (case fire reachedLimit s e of None \<Rightarrow> None | Some s' \<Rightarrow> run reachedLimit s' es)"

section \<open>pages/api/save-recipes.ts\<close>

record uploadReturnType =
  location :: string
  uploaded :: bool

record recipeDocument = recipe +
  doc_owner :: string
  doc_imgLink :: string

text \<open>\<open>String.prototype.split\<close> with a one-character separator; the result is never
  empty (\<open>"".split("-")\<close> is \<open>[""]\<close>).\<close>

fun split :: "char \<Rightarrow> string \<Rightarrow> string list" where
  "split sep [] = [[]]"
| "split sep (c # cs) =
     (if c = sep then [] # split sep cs
      else (case split sep cs of [] \<Rightarrow> [[c]] | w # ws \<Rightarrow> (c # w) # ws))"

text \<open>\<open>r.openaiPromptId.split('-')[0]\<close>.\<close>

definition removeClientKey :: "string \<Rightarrow> string" where
  "removeClientKey s = (case split CHR ''-'' s of [] \<Rightarrow> [] | w # _ \<Rightarrow> w)"

definition getS3Link :: "uploadReturnType list option \<Rightarrow> string \<Rightarrow> string" where
  "getS3Link uploadResults loc =
     (case uploadResults of
        None \<Rightarrow> ''/logo.svg''
      | Some results \<Rightarrow>
          (case filter (\<lambda>result. location result = loc) results of
             [] \<Rightarrow> ''/logo.svg''
           | r # _ \<Rightarrow>
               if uploaded r then ''https://smart-recipe-generator.s3.amazonaws.com/'' @ loc
               else ''/logo.svg''))"

text \<open>\<open>updatedRecipes\<close> of the handler: the documents passed to \<open>insertMany\<close>.\<close>

definition updatedRecipes ::
  "string \<Rightarrow> uploadReturnType list option \<Rightarrow> recipe list \<Rightarrow> recipeDocument list" where
  "updatedRecipes sessionUserId uploadResults recipes =
     map (\<lambda>r. \<lparr>name = name r, ingredients = ingredients r, instructions = instructions r,
               dietaryPreference = dietaryPreference r,
               additionalInformation = additionalInformation r,
               openaiPromptId = removeClientKey (openaiPromptId r),
               doc_owner = sessionUserId,
               doc_imgLink = getS3Link uploadResults (openaiPromptId r)\<rparr>) recipes"

section \<open>components/Recipe_Creation/NewIngredientDialog.tsx\<close>

record ingredientDocumentType =
  cat_id :: string
  cat_name :: string
  createdBy :: "string option"
  cat_createdAt :: string

record dialog =
  isOpen :: bool
  ingredientName :: string
  dlg_isLoading :: bool
  message :: string
  isDisabled :: bool

text \<open>
  The data of \<open>/api/validate-ingredient\<close>: \<open>resp_error\<close> is empty when the property is
  absent (any non-empty string is truthy), and \<open>newIngredient\<close> and \<open>suggested\<close> are
  \<open>None\<close> when absent, in which case reading \<open>.name\<close> or calling \<open>.join\<close> throws.
\<close>

record validateResponse =
  resp_message :: string
  resp_error :: string
  newIngredient :: "ingredientDocumentType option"
  suggested :: "string list option"

text \<open>\<open>Array.prototype.join\<close>.\<close>

fun join :: "string \<Rightarrow> string list \<Rightarrow> string" where
  "join sep [] = []"
| "join sep [x] = x"
| "join sep (x # y # ys) = x @ sep @ join sep (y # ys)"

text \<open>The \<open>catch\<close> and \<open>finally\<close> blocks of \<open>handleSubmit\<close>.\<close>

definition failedToAdd :: "dialog \<Rightarrow> dialog" where
  "failedToAdd d = d\<lparr>message := ''Failed to add ingredient'', dlg_isLoading := False\<rparr>"

text \<open>The part of \<open>handleSubmit\<close> after the call has returned \<open>response\<close>: the new dialog
  state and the catalog entry handed to \<open>updateIngredientList\<close>, if any.\<close>

definition afterValidation ::
  "dialog \<Rightarrow> validateResponse \<Rightarrow> dialog \<times> ingredientDocumentType option" where
  "afterValidation d response =
     (if resp_error response \<noteq> [] then (failedToAdd d, None)
      else if resp_message response = ''Success'' then
        (case newIngredient response of
           None \<Rightarrow> (failedToAdd d, None)
         | Some n \<Rightarrow>
             (d\<lparr>message := ''Successfully added: '' @ cat_name n, ingredientName := [],
                dlg_isLoading := False\<rparr>, Some n))
      else if resp_message response = ''Invalid'' then
        (case suggested response of
           None \<Rightarrow> (failedToAdd d, None)
         | Some sug \<Rightarrow>
             (let possibleSuggestions = join '', '' sug
              in (d\<lparr>message := ingredientName d @ '' is invalid. ''
                       @ (if possibleSuggestions \<noteq> []
                          then ''Try the following suggestions: '' @ possibleSuggestions
                          else []),
                     ingredientName := [], dlg_isLoading := False\<rparr>, None)))
      else
        (d\<lparr>message := ''An error occurred with validation... check back later: ''
                @ resp_message response,
            ingredientName := [], dlg_isLoading := False\<rparr>, None))"

text \<open>
  \<open>handleSubmit\<close>. The functions \<open>pluralize\<close> and \<open>pluralize.singular\<close> of the npm package
  are parameters. The result is the new dialog state, the payloads of the calls made to
  the external validator, and the catalog held by \<open>IngredientForm\<close> afterwards
  (\<open>updateIngredientList\<close> appends to it).
\<close>

record submitResult =
  dialogAfter :: dialog
  validatorCalls :: "string list"
  catalogAfter :: "ingredientDocumentType list"

definition handleSubmit ::
  "(string \<Rightarrow> string) \<Rightarrow> (string \<Rightarrow> string) \<Rightarrow> ingredientDocumentType list \<Rightarrow> dialog
     \<Rightarrow> validateResponse api_result \<Rightarrow> submitResult" where
  "handleSubmit pluralize singular ingredientList d outcome =
     (if trim (ingredientName d) = [] then
        \<lparr>dialogAfter = d, validatorCalls = [], catalogAfter = ingredientList\<rparr>
      else if length (trim (ingredientName d)) > 20 then
        \<lparr>dialogAfter = d\<lparr>message := ''This ingredient name is too long!'', isDisabled := True\<rparr>,
         validatorCalls = [], catalogAfter = ingredientList\<rparr>
      else
        (let ingredient = toLowerCase (trim (ingredientName d));
             availableIngredients = map (\<lambda>i. toLowerCase (cat_name i)) ingredientList;
             pluralizedIngredient = pluralize ingredient;
             singularizedIngredient = singular ingredient;
             isAvailable = (ingredient \<in> set availableIngredients
                            \<or> pluralizedIngredient \<in> set availableIngredients
                            \<or> singularizedIngredient \<in> set availableIngredients)
         in if isAvailable then
              \<lparr>dialogAfter =
                 d\<lparr>message := ''This ingredient is already available'', isDisabled := True\<rparr>,
               validatorCalls = [], catalogAfter = ingredientList\<rparr>
            else
              (case outcome of
                 Rejected \<Rightarrow>
                   \<lparr>dialogAfter = failedToAdd d, validatorCalls = [ingredientName d],
                    catalogAfter = ingredientList\<rparr>
               | Resolved response \<Rightarrow>
                   (case afterValidation d response of
                      (d', None) \<Rightarrow>
                        \<lparr>dialogAfter = d', validatorCalls = [ingredientName d],
                         catalogAfter = ingredientList\<rparr>
                    | (d', Some n) \<Rightarrow>
                        \<lparr>dialogAfter = d', validatorCalls = [ingredientName d],
                         catalogAfter = ingredientList @ [n]\<rparr>))))"

section \<open>The claims as the specification words them\<close>

text \<open>
  The specification's search filter: an entry matches when the query, ignoring the letter
  case of both the query and the field, is a substring of the recipe name, of some
  ingredient name, or of some dietary-preference tag.
\<close>

definition spec_matchesIgnoringCase :: "string \<Rightarrow> extendedRecipe \<Rightarrow> bool" where
  "spec_matchesIgnoringCase query r =
     (str_includes (toLowerCase (name r)) (toLowerCase query)
      \<or> list_ex (\<lambda>i. str_includes (toLowerCase (ri_name i)) (toLowerCase query)) (ingredients r)
      \<or> list_ex (\<lambda>d. str_includes (toLowerCase d) (toLowerCase query)) (dietaryPreference r))"

section \<open>Example data\<close>

definition exampleUser :: "string \<Rightarrow> userRef" where
  "exampleUser uid =
     \<lparr>user_id = uid, user_name = ''Ann'', user_image = ''ann.png'',
      user_extra = [(''email'', ''ann@example.org'')]\<rparr>"

definition exampleView :: "string \<Rightarrow> string \<Rightarrow> string list \<Rightarrow> extendedRecipe" where
  "exampleView rid nm ings =
     \<lparr>name = nm,
      ingredients = map (\<lambda>n. \<lparr>ri_name = n, ri_quantity = ''1''\<rparr>) ings,
      instructions = [], dietaryPreference = [''Vegetarian''],
      additionalInformation =
        \<lparr>tips = [], variations = [], servingSuggestions = [], nutritionalInformation = []\<rparr>,
      openaiPromptId = ''batch0'',
      recipe_id = rid, imgLink = ''/logo.svg'', owner = exampleUser ''u1'',
      createdAt = [], updatedAt = [], likedBy = [exampleUser ''u2''],
      owns = False, liked = False\<rparr>"

definition exampleCandidate :: "string \<Rightarrow> recipe" where
  "exampleCandidate nm =
     \<lparr>name = nm, ingredients = [\<lparr>ri_name = ''Egg'', ri_quantity = ''2''\<rparr>],
      instructions = [''Mix'', ''Cook''], dietaryPreference = [''Vegetarian''],
      additionalInformation =
        \<lparr>tips = [], variations = [], servingSuggestions = [], nutritionalInformation = []\<rparr>,
      openaiPromptId = []\<rparr>"

definition exampleResponse :: "string \<Rightarrow> generateResponse" where
  "exampleResponse promptId =
     \<lparr>gen_recipes =
        Some [exampleCandidate ''Omelette'', exampleCandidate ''Pancakes'',
              exampleCandidate ''Custard''],
      gen_openaiPromptId = promptId\<rparr>"

text \<open>Three ingredients are chosen and the wizard is taken to the review step.\<close>

definition toReview :: "event list" where
  "toReview =
     [SelectIngredient (Some ''Egg'') ''id-1'', SelectIngredient (Some ''Flour'') ''id-2'',
      SelectIngredient (Some ''Milk'') ''id-3'', Next, Next]"


text \<open>Recipes are generated, the first and the third are selected, and the wizard is
  taken to the last step.\<close>

definition toSave :: "event list" where
  "toSave =
     toReview @ [CreateRecipes (Resolved (exampleResponse ''batch1'')),
                 ToggleRecipe ''batch1-0'', ToggleRecipe ''batch1-2'', Next]"


definition reviewState :: navigation where
  "reviewState =
     \<lparr>step = 2,
      nav_ingredients =
        [\<lparr>ing_name = ''Egg'', ing_quantity = None, ing_id = ''id-1''\<rparr>,
         \<lparr>ing_name = ''Flour'', ing_quantity = None, ing_id = ''id-2''\<rparr>,
         \<lparr>ing_name = ''Milk'', ing_quantity = None, ing_id = ''id-3''\<rparr>],
      preferences = [], generatedRecipes = [], selectedRecipeIds = [],
      isLoading = False, pushed = []\<rparr>"

definition revisitedState :: navigation where
  "revisitedState =
     reviewState\<lparr>generatedRecipes :=
       [(exampleCandidate ''Omelette'')\<lparr>openaiPromptId := ''batch1-0''\<rparr>,
        (exampleCandidate ''Pancakes'')\<lparr>openaiPromptId := ''batch1-1''\<rparr>,
        (exampleCandidate ''Custard'')\<lparr>openaiPromptId := ''batch1-2''\<rparr>]\<rparr>"

definition saveState :: navigation where
  "saveState = revisitedState\<lparr>step := 4, selectedRecipeIds := [''batch1-0'', ''batch1-2'']\<rparr>"

definition exampleCatalog :: "ingredientDocumentType list" where
  "exampleCatalog =
     [\<lparr>cat_id = ''c1'', cat_name = ''Tomato'', createdBy = None, cat_createdAt = []\<rparr>,
      \<lparr>cat_id = ''c2'', cat_name = ''Egg'', createdBy = None, cat_createdAt = []\<rparr>]"

definition exampleDialog :: "string \<Rightarrow> dialog" where
  "exampleDialog typed =
     \<lparr>isOpen = True, ingredientName = typed, dlg_isLoading = False, message = [],
      isDisabled = False\<rparr>"

text \<open>Stand-ins for \<open>pluralize\<close> and \<open>pluralize.singular\<close> that agree with the package on
  the regular nouns used in the examples.\<close>

definition examplePlural :: "string \<Rightarrow> string" where
  "examplePlural w = (if suffix ''s'' w then w else w @ ''s'')"

definition exampleSingular :: "string \<Rightarrow> string" where
  "exampleSingular w =
     (if suffix ''oes'' w then take (length w - 2) w
      else if suffix ''s'' w then take (length w - 1) w else w)"

section \<open>Properties\<close>

lemma length_steps: "length steps = 5"
  by (simp add: steps_def)

subsection \<open>Replacing and removing an entry of the recipe list\<close>

lemma findIndex_none: "\<forall>x\<in>set xs. \<not> p x \<Longrightarrow> findIndex p xs = - 1"
  by (induction xs) (auto simp: Let_def)

lemma findIndex_first:
  "p x \<Longrightarrow> \<forall>y\<in>set pre. \<not> p y \<Longrightarrow> findIndex p (pre @ x # post) = int (length pre)"
  by (induction pre) (auto simp: Let_def)

lemma slice_take: "slice xs 0 (int k) = take k xs"
  by (simp add: slice_def Let_def min_def)

lemma slice_from_drop: "slice_from xs (int k) = drop k xs"
  by (simp add: slice_from_def slice_def Let_def min_def)

lemma slice_to_minus_one: "slice xs 0 (- 1) = butlast xs"
  by (cases xs rule: rev_cases) (simp_all add: slice_def Let_def butlast_conv_take)

lemma exactly_one_split:
  assumes "length (filter P xs) = 1"
  shows "\<exists>pre x post. xs = pre @ x # post \<and> P x \<and> (\<forall>y\<in>set pre \<union> set post. \<not> P y)"
proof -
  from assms have "filter P xs \<noteq> []" by auto
  then have "\<exists>x\<in>set xs. P x" by (simp add: filter_empty_conv)
  from split_list_first_prop [OF this]
  obtain pre x post where s: "xs = pre @ x # post" "P x" "\<forall>y\<in>set pre. \<not> P y"
    by blast
  then have "filter P xs = x # filter P post" by simp
  with assms have "filter P post = []" by simp
  then have "\<forall>y\<in>set post. \<not> P y" by (simp add: filter_empty_conv)
  with s show ?thesis by blast
qed

lemma updateRecipeList_replace_at:
  assumes "recipe_id old = recipe_id updated"
    and "\<forall>p\<in>set pre. recipe_id p \<noteq> recipe_id updated"
  shows "updateRecipeList (pre @ old # post) (Some updated) deleteId = pre @ updated # post"
proof -
  have "findIndex (\<lambda>p. Some (recipe_id p) = Some (recipe_id updated)) (pre @ old # post)
        = int (length pre)"
    using assms by (intro findIndex_first) auto
  then show ?thesis
    using slice_take [of "pre @ old # post" "length pre"]
      slice_from_drop [of "pre @ old # post" "Suc (length pre)"]
    by (simp add: updateRecipeList_def Let_def add.commute)
qed

lemma updateRecipeList_delete_at:
  assumes "recipe_id old = d"
    and "\<forall>p\<in>set pre. recipe_id p \<noteq> d"
  shows "updateRecipeList (pre @ old # post) None (Some d) = pre @ post"
proof -
  have "findIndex (\<lambda>p. Some (recipe_id p) = Some d) (pre @ old # post) = int (length pre)"
    using assms by (intro findIndex_first) auto
  then show ?thesis
    using slice_take [of "pre @ old # post" "length pre"]
      slice_from_drop [of "pre @ old # post" "Suc (length pre)"]
    by (simp add: updateRecipeList_def Let_def add.commute)
qed

text \<open>
  C1. When exactly one entry of the list has the id of \<open>updated\<close>, the result of
  \<open>updateRecipeList list updated\<close> is the list with that entry replaced by \<open>updated\<close>: the
  entries before and after it are unchanged and in their order, and the length is the
  same. When exactly one entry has the id \<open>d\<close>, \<open>updateRecipeList list null d\<close> is the list
  without that entry: the others keep their order, the result is one shorter and no
  entry of it has the id \<open>d\<close>.
\<close>

theorem updateRecipeList_replace_and_delete:
  "(length (filter (\<lambda>p. recipe_id p = recipe_id updated) list) = 1 \<longrightarrow>
      (\<exists>pre old post. list = pre @ old # post \<and> recipe_id old = recipe_id updated
         \<and> (\<forall>p \<in> set pre \<union> set post. recipe_id p \<noteq> recipe_id updated)
         \<and> updateRecipeList list (Some updated) deleteId = pre @ updated # post)
      \<and> length (updateRecipeList list (Some updated) deleteId) = length list)
   \<and> (length (filter (\<lambda>p. recipe_id p = d) list) = 1 \<longrightarrow>
      (\<exists>pre old post. list = pre @ old # post \<and> recipe_id old = d
         \<and> (\<forall>p \<in> set pre \<union> set post. recipe_id p \<noteq> d)
         \<and> updateRecipeList list None (Some d) = pre @ post)
      \<and> Suc (length (updateRecipeList list None (Some d))) = length list
      \<and> d \<notin> recipe_id ` set (updateRecipeList list None (Some d)))"
proof (intro conjI impI)
  assume "length (filter (\<lambda>p. recipe_id p = recipe_id updated) list) = 1"
  from exactly_one_split [OF this] obtain pre old post where
    s: "list = pre @ old # post" "recipe_id old = recipe_id updated"
       "\<forall>p\<in>set pre \<union> set post. recipe_id p \<noteq> recipe_id updated"
    by blast
  then have r: "updateRecipeList list (Some updated) deleteId = pre @ updated # post"
    using updateRecipeList_replace_at [of old updated pre post deleteId] by simp
  from s r show "\<exists>pre old post. list = pre @ old # post \<and> recipe_id old = recipe_id updated
         \<and> (\<forall>p \<in> set pre \<union> set post. recipe_id p \<noteq> recipe_id updated)
         \<and> updateRecipeList list (Some updated) deleteId = pre @ updated # post"
    by blast
  from s r show "length (updateRecipeList list (Some updated) deleteId) = length list"
    by simp
next
  assume a: "length (filter (\<lambda>p. recipe_id p = d) list) = 1"
  from exactly_one_split [OF a] obtain pre old post where
    s: "list = pre @ old # post" "recipe_id old = d"
       "\<forall>p\<in>set pre \<union> set post. recipe_id p \<noteq> d"
    by blast
  then have r: "updateRecipeList list None (Some d) = pre @ post"
    using updateRecipeList_delete_at [of old d pre post] by simp
  from s r show "\<exists>pre old post. list = pre @ old # post \<and> recipe_id old = d
         \<and> (\<forall>p \<in> set pre \<union> set post. recipe_id p \<noteq> d)
         \<and> updateRecipeList list None (Some d) = pre @ post"
    by blast
  from s r show "Suc (length (updateRecipeList list None (Some d))) = length list"
    by simp
  from s r show "d \<notin> recipe_id ` set (updateRecipeList list None (Some d))"
    by auto
qed

subsection \<open>The wizard\<close>

text \<open>
  C4. For a state at step 4, \<open>handleRecipeSubmit\<close> with a resolved call empties the
  ingredients, the preferences, the generated recipes and the selection and sets the
  step to 0; with a rejected call it leaves these five as they were.
\<close>

theorem handleRecipeSubmit_clears_only_on_success:
  fixes s :: navigation
  assumes "step s = 4"
  shows "nav_ingredients (handleRecipeSubmit s recipes (Resolved ack)) = []
       \<and> preferences (handleRecipeSubmit s recipes (Resolved ack)) = []
       \<and> generatedRecipes (handleRecipeSubmit s recipes (Resolved ack)) = []
       \<and> selectedRecipeIds (handleRecipeSubmit s recipes (Resolved ack)) = []
       \<and> step (handleRecipeSubmit s recipes (Resolved ack)) = 0
       \<and> nav_ingredients (handleRecipeSubmit s recipes Rejected) = nav_ingredients s
       \<and> preferences (handleRecipeSubmit s recipes Rejected) = preferences s
       \<and> generatedRecipes (handleRecipeSubmit s recipes Rejected) = generatedRecipes s
       \<and> selectedRecipeIds (handleRecipeSubmit s recipes Rejected) = selectedRecipeIds s
       \<and> step (handleRecipeSubmit s recipes Rejected) = 4"
  using assms by (simp add: handleRecipeSubmit_def Let_def)

theorem handleRecipeSubmit_clears_only_on_success_witness:
  "step saveState = 4
   \<and> nav_ingredients (handleRecipeSubmit saveState [] (Resolved ())) = []
   \<and> step (handleRecipeSubmit saveState [] (Resolved ())) = 0
   \<and> selectedRecipeIds (handleRecipeSubmit saveState [] Rejected) = [''batch1-0'', ''batch1-2'']
   \<and> step (handleRecipeSubmit saveState [] Rejected) = 4"
proof -
  have s: "step saveState = 4" by (simp add: saveState_def)
  show ?thesis
    using handleRecipeSubmit_clears_only_on_success [OF s, of "[]" "()"] s
    by (simp add: saveState_def)
qed

text \<open>Two invariants of every run: a generated batch exists only with at least three
  ingredients, and the step stays between 0 and 4.\<close>

lemma handle_batch_needs_three:
  assumes "handle s e = Some s'"
    and "generatedRecipes s \<noteq> [] \<longrightarrow> 3 \<le> length (nav_ingredients s)"
  shows "generatedRecipes s' \<noteq> [] \<longrightarrow> 3 \<le> length (nav_ingredients s')"
  using assms
  by (cases e)
     (auto simp: handleIngredientSubmit_def handleRecipeSubmit_def deleteIngredient_def
        createRecipesDisabled_def inputsDisabled_def Let_def
        split: if_splits api_result.splits option.splits)

lemma handle_step_range:
  assumes "handle s e = Some s'" and "0 \<le> step s \<and> step s \<le> 4"
  shows "0 \<le> step s' \<and> step s' \<le> 4"
  using assms
  by (cases e)
     (auto simp: handleIngredientSubmit_def handleRecipeSubmit_def updateStep_def length_steps
        rendered_def Let_def
        split: if_splits api_result.splits option.splits)

lemma run_invariants:
  assumes "run lim s evs = Some s'"
    and "generatedRecipes s \<noteq> [] \<longrightarrow> 3 \<le> length (nav_ingredients s)"
    and "0 \<le> step s \<and> step s \<le> 4"
  shows "(generatedRecipes s' \<noteq> [] \<longrightarrow> 3 \<le> length (nav_ingredients s'))
       \<and> 0 \<le> step s' \<and> step s' \<le> 4"
  using assms
proof (induction evs arbitrary: s)
  case Nil
  then show ?case by simp
next
  case (Cons e evs)
  from Cons.prems(1) obtain t where t: "handle s e = Some t" "run lim t evs = Some s'"
    by (auto simp: fire_def split: option.splits if_splits)
  show ?case
    using Cons.IH [OF t(2)] handle_batch_needs_three [OF t(1) Cons.prems(2)]
      handle_step_range [OF t(1) Cons.prems(3)]
    by blast
qed


text \<open>
  C10. For a step in the range 0..4 and a navigation delta of +1 or -1, \<open>updateStep\<close>
  yields a step in the range 0..4; a computed step below 0 or at or after the number of
  steps is reset to 0 (from step 4, +1 gives 0 and not 4), and every other computed step
  is kept. In every state that a run from the mounted wizard reaches, the step is in the
  range 0..4.
\<close>

theorem updateStep_range_reset:
  "(0 \<le> cur \<and> cur \<le> 4 \<and> (val = 1 \<or> val = - 1) \<longrightarrow>
      0 \<le> updateStep cur val \<and> updateStep cur val \<le> 4)
   \<and> (cur + val < 0 \<or> cur + val \<ge> 5 \<longrightarrow> updateStep cur val = 0)
   \<and> (0 \<le> cur + val \<and> cur + val < 5 \<longrightarrow> updateStep cur val = cur + val)
   \<and> updateStep 4 1 = 0
   \<and> (run reachedLimit (mount olds) evs = Some s \<longrightarrow> 0 \<le> step s \<and> step s \<le> 4)"
proof -
  have "run reachedLimit (mount olds) evs = Some s \<longrightarrow> 0 \<le> step s \<and> step s \<le> 4"
    using run_invariants [of reachedLimit "mount olds" evs s] by (simp add: mount_def)
  moreover have "(0 \<le> cur \<and> cur \<le> 4 \<and> (val = 1 \<or> val = - 1) \<longrightarrow>
      0 \<le> updateStep cur val \<and> updateStep cur val \<le> 4)
   \<and> (cur + val < 0 \<or> cur + val \<ge> 5 \<longrightarrow> updateStep cur val = 0)
   \<and> (0 \<le> cur + val \<and> cur + val < 5 \<longrightarrow> updateStep cur val = cur + val)
   \<and> updateStep 4 1 = 0"
    by (auto simp: updateStep_def length_steps Let_def)
  ultimately show ?thesis by blast
qed

theorem updateStep_range_reset_witness:
  "(0::int) \<le> 4 \<and> (4::int) \<le> 4 \<and> updateStep 4 1 = 0 \<and> updateStep 0 (- 1) = 0
   \<and> updateStep 2 1 = 3
   \<and> run False (mount None) toSave = Some saveState \<and> step saveState = 4"
proof -
  have r: "run False (mount None) toSave = Some saveState" by code_simp
  have s: "step saveState = 4" by (simp add: saveState_def)
  show ?thesis
    using updateStep_range_reset [of 4 1 False None toSave saveState]
      updateStep_range_reset [of 0 "- 1" False None toSave saveState]
      updateStep_range_reset [of 2 1 False None toSave saveState] r s
    by simp
qed




text \<open>
  C6 fails on the code: when the generation call or the save call is rejected, the
  \<open>catch\<close> block leaves \<open>isLoading\<close> set. (\<open>NewIngredientDialog.handleSubmit\<close> clears its
  flag in a \<open>finally\<close> block.)
\<close>

theorem loading_not_cleared_on_failure:
  "map_option isLoading (run False (mount None) (toReview @ [CreateRecipes Rejected])) = Some True
   \<and> map_option isLoading (run False (mount None) (toSave @ [SubmitSelected Rejected])) = Some True"
  by code_simp

lemma loading_cleared_on_success:
  "\<not> isLoading (handleRecipeSubmit s recipes (Resolved ack))
   \<and> \<not> isLoading (handleIngredientSubmit s (Resolved \<lparr>gen_recipes = Some parsed, gen_openaiPromptId = b\<rparr>))"
  by (simp add: handleRecipeSubmit_def handleIngredientSubmit_def Let_def)

subsection \<open>The client key\<close>

lemma split_not_Nil: "split sep s \<noteq> []"
  by (induction s) (auto split: list.splits)

lemma split_hd_no_sep: "sep \<notin> set w \<Longrightarrow> split sep (w @ sep # rest) = w # split sep rest"
  by (induction w) (auto split: list.splits simp: split_not_Nil)

lemma removeClientKey_clientKey:
  "CHR ''-'' \<notin> set b \<Longrightarrow> removeClientKey (clientKey b i) = b"
  using split_hd_no_sep [of "CHR ''-''" b "numberToString i"]
  by (simp add: removeClientKey_def clientKey_def)

text \<open>
  C8 fails on the code for a batch id that contains a hyphen, such as the fallback id
  \<open>null-prompt-id\<close> of \<open>generateRecipe\<close>: the save handler keeps \<open>null\<close>.
\<close>

theorem client_key_not_removed_from_fallback_id:
  "removeClientKey (clientKey ''null-prompt-id'' 0) = ''null''
   \<and> map openaiPromptId
       (updatedRecipes ''u1'' None
          (tagRecipes ''null-prompt-id'' [exampleCandidate ''Omelette'', exampleCandidate ''Custard'']))
     = [''null'', ''null'']"
  by code_simp

subsection \<open>The ingredient validation gate\<close>

text \<open>
  C7. \<open>handleSubmit\<close> calls the external validator only if the trimmed candidate has at
  most 20 characters and neither its lower-cased form nor the plural or the singular of
  that is the lower-cased name of a catalog entry. A candidate longer than 20 characters,
  or one of whose three forms is in the catalog, leads to no call and leaves the catalog
  as it is; unless it is blank, the submit button is disabled and the message says why.
\<close>

theorem validation_gate:
  fixes catalog :: "ingredientDocumentType list" and d :: dialog
  shows
  "(validatorCalls (handleSubmit pluralize singular catalog d outcome) \<noteq> [] \<longrightarrow>
      length (trim (ingredientName d)) \<le> 20
      \<and> toLowerCase (trim (ingredientName d)) \<notin> set (map (\<lambda>i. toLowerCase (cat_name i)) catalog)
      \<and> pluralize (toLowerCase (trim (ingredientName d)))
          \<notin> set (map (\<lambda>i. toLowerCase (cat_name i)) catalog)
      \<and> singular (toLowerCase (trim (ingredientName d)))
          \<notin> set (map (\<lambda>i. toLowerCase (cat_name i)) catalog))
   \<and> (20 < length (trim (ingredientName d))
       \<or> toLowerCase (trim (ingredientName d)) \<in> set (map (\<lambda>i. toLowerCase (cat_name i)) catalog)
       \<or> pluralize (toLowerCase (trim (ingredientName d)))
           \<in> set (map (\<lambda>i. toLowerCase (cat_name i)) catalog)
       \<or> singular (toLowerCase (trim (ingredientName d)))
           \<in> set (map (\<lambda>i. toLowerCase (cat_name i)) catalog) \<longrightarrow>
      validatorCalls (handleSubmit pluralize singular catalog d outcome) = []
      \<and> catalogAfter (handleSubmit pluralize singular catalog d outcome) = catalog
      \<and> (trim (ingredientName d) \<noteq> [] \<longrightarrow>
           isDisabled (dialogAfter (handleSubmit pluralize singular catalog d outcome))
           \<and> message (dialogAfter (handleSubmit pluralize singular catalog d outcome))
               \<in> {''This ingredient name is too long!'', ''This ingredient is already available''}))"
  by (auto simp: handleSubmit_def Let_def split: api_result.splits prod.splits option.splits)

theorem validation_gate_witness:
  "validatorCalls (handleSubmit examplePlural exampleSingular exampleCatalog
      (exampleDialog ''tomatoes'') Rejected) = []
   \<and> catalogAfter (handleSubmit examplePlural exampleSingular exampleCatalog
      (exampleDialog ''tomatoes'') Rejected) = exampleCatalog
   \<and> validatorCalls (handleSubmit examplePlural exampleSingular exampleCatalog
      (exampleDialog ''abcdefghijklmnopqrstuvwxy'') Rejected) = []
   \<and> validatorCalls (handleSubmit examplePlural exampleSingular exampleCatalog
      (exampleDialog ''Basil'') Rejected) \<noteq> []
   \<and> length (trim (ingredientName (exampleDialog ''Basil''))) \<le> 20"
proof -
  have a: "exampleSingular (toLowerCase (trim (ingredientName (exampleDialog ''tomatoes''))))
             \<in> set (map (\<lambda>i. toLowerCase (cat_name i)) exampleCatalog)"
    by code_simp
  have b: "20 < length (trim (ingredientName (exampleDialog ''abcdefghijklmnopqrstuvwxy'')))"
    by code_simp
  have c: "validatorCalls (handleSubmit examplePlural exampleSingular exampleCatalog
      (exampleDialog ''Basil'') Rejected) \<noteq> []"
    by code_simp
  show ?thesis
    using validation_gate [of examplePlural exampleSingular exampleCatalog
        "exampleDialog ''tomatoes''" Rejected]
      validation_gate [of examplePlural exampleSingular exampleCatalog
        "exampleDialog ''abcdefghijklmnopqrstuvwxy''" Rejected]
      validation_gate [of examplePlural exampleSingular exampleCatalog
        "exampleDialog ''Basil''" Rejected]
      a b c
    by blast
qed

subsection \<open>The recipe list, continued\<close>

theorem updateRecipeList_replace_and_delete_witness:
  "length (filter (\<lambda>p. recipe_id p = recipe_id (exampleView ''r2'' ''Stew'' []))
       [exampleView ''r1'' ''Salad'' [], exampleView ''r2'' ''Soup'' [],
        exampleView ''r3'' ''Cake'' []]) = 1
   \<and> length (updateRecipeList
       [exampleView ''r1'' ''Salad'' [], exampleView ''r2'' ''Soup'' [],
        exampleView ''r3'' ''Cake'' []] (Some (exampleView ''r2'' ''Stew'' [])) None) = 3
   \<and> map name (updateRecipeList
       [exampleView ''r1'' ''Salad'' [], exampleView ''r2'' ''Soup'' [],
        exampleView ''r3'' ''Cake'' []] (Some (exampleView ''r2'' ''Stew'' [])) None)
       = [''Salad'', ''Stew'', ''Cake'']
   \<and> length (filter (\<lambda>p. recipe_id p = ''r2'')
       [exampleView ''r1'' ''Salad'' [], exampleView ''r2'' ''Soup'' [],
        exampleView ''r3'' ''Cake'' []]) = 1
   \<and> Suc (length (updateRecipeList
       [exampleView ''r1'' ''Salad'' [], exampleView ''r2'' ''Soup'' [],
        exampleView ''r3'' ''Cake'' []] None (Some ''r2''))) = 3
   \<and> ''r2'' \<notin> recipe_id ` set (updateRecipeList
       [exampleView ''r1'' ''Salad'' [], exampleView ''r2'' ''Soup'' [],
        exampleView ''r3'' ''Cake'' []] None (Some ''r2''))"
proof -
  let ?l = "[exampleView ''r1'' ''Salad'' [], exampleView ''r2'' ''Soup'' [],
             exampleView ''r3'' ''Cake'' []]"
  let ?u = "exampleView ''r2'' ''Stew'' []"
  have h1: "length (filter (\<lambda>p. recipe_id p = recipe_id ?u) ?l) = 1"
    by (simp add: exampleView_def)
  have h2: "length (filter (\<lambda>p. recipe_id p = ''r2'') ?l) = 1"
    by (simp add: exampleView_def)
  have n: "map name (updateRecipeList ?l (Some ?u) None) = [''Salad'', ''Stew'', ''Cake'']"
    by code_simp
  have len: "length ?l = 3" by simp
  from updateRecipeList_replace_and_delete [of ?u ?l None "''r2''"] h1 h2
  have "length (updateRecipeList ?l (Some ?u) None) = length ?l
      \<and> Suc (length (updateRecipeList ?l None (Some ''r2''))) = length ?l
      \<and> ''r2'' \<notin> recipe_id ` set (updateRecipeList ?l None (Some ''r2''))"
    by blast
  with h1 h2 n len show ?thesis by simp
qed

text \<open>Without a match \<open>findIndex\<close> returns \<open>-1\<close>, and the two slices are the list without
  its last entry and the whole list.\<close>

lemma updateRecipeList_no_match_replace:
  assumes "\<forall>p\<in>set list. recipe_id p \<noteq> recipe_id updated"
  shows "updateRecipeList list (Some updated) deleteId = butlast list @ updated # list"
proof -
  have "findIndex (\<lambda>p. Some (recipe_id p) = Some (recipe_id updated)) list = - 1"
    using assms by (intro findIndex_none) auto
  then show ?thesis
    using slice_from_drop [of list 0]
    by (simp add: updateRecipeList_def Let_def slice_to_minus_one)
qed

lemma updateRecipeList_no_match_delete:
  assumes "\<forall>p\<in>set list. recipe_id p \<noteq> d"
  shows "updateRecipeList list None (Some d) = butlast list @ list"
proof -
  have "findIndex (\<lambda>p. Some (recipe_id p) = Some d) list = - 1"
    using assms by (intro findIndex_none) auto
  then show ?thesis
    using slice_from_drop [of list 0]
    by (simp add: updateRecipeList_def Let_def slice_to_minus_one)
qed

text \<open>
  C2 fails on the code: with no entry of the given id, the result is not the list. A
  replacement puts the new recipe after all entries but the last and then repeats the
  whole list, and a removal repeats all entries but the last.
\<close>

theorem updateRecipeList_no_match_duplicates:
  "map recipe_id
     (updateRecipeList [exampleView ''r1'' ''Salad'' [], exampleView ''r2'' ''Soup'' []]
        (Some (exampleView ''r9'' ''Stew'' [])) None) = [''r1'', ''r9'', ''r1'', ''r2'']
   \<and> map recipe_id
     (updateRecipeList [exampleView ''r1'' ''Salad'' [], exampleView ''r2'' ''Soup'' []]
        None (Some ''r9'')) = [''r1'', ''r1'', ''r2'']"
  by code_simp

subsection \<open>Shaping the results for a user\<close>

text \<open>
  C9. \<open>filterResults\<close> is idempotent: applied with the same \<open>userId\<close> to its own output it
  returns that output.
\<close>

theorem filterResults_idempotent:
  "filterResults (filterResults records userId) userId = filterResults records userId"
  by (simp add: filterResults_def simplifyUser_def list_ex_iff comp_def)

theorem filterResults_idempotent_witness:
  "filterResults (filterResults [exampleView ''r1'' ''Salad'' []] ''u2'') ''u2''
     = filterResults [exampleView ''r1'' ''Salad'' []] ''u2''
   \<and> map liked (filterResults [exampleView ''r1'' ''Salad'' []] ''u2'') = [True]
   \<and> map liked [exampleView ''r1'' ''Salad'' []] = [False]"
proof -
  have "map liked (filterResults [exampleView ''r1'' ''Salad'' []] ''u2'') = [True]"
    "map liked [exampleView ''r1'' ''Salad'' []] = [False]"
    by code_simp+
  with filterResults_idempotent [of "[exampleView ''r1'' ''Salad'' []]" "''u2''"]
  show ?thesis by blast
qed

subsection \<open>The search filter\<close>

lemma toLowerChar_idem: "toLowerChar (toLowerChar c) = toLowerChar c"
  by (auto simp: toLowerChar_def Let_def)

lemma toLowerChar_examples:
  "toLowerChar CHR ''T'' = CHR ''t''" "toLowerChar CHR ''t'' = CHR ''t''"
  "toLowerChar (CHR 0xC9) = CHR 0xE9" "toLowerChar (CHR 0xD1) = CHR 0xF1"
  "toLowerChar (CHR 0xD7) = CHR 0xD7" "toLowerChar (CHR 0xDF) = CHR 0xDF"
  by code_simp+

lemma toLowerCase_idem: "toLowerCase (toLowerCase s) = toLowerCase s"
  by (simp add: toLowerCase_def toLowerChar_idem)

lemma toLowerCase_Nil: "toLowerCase s = [] \<longleftrightarrow> s = []"
  by (simp add: toLowerCase_def)

lemma str_includes_sublist: "str_includes s sub \<longleftrightarrow> sublist sub s"
  by (induction s) (auto simp: sublist_Cons_right)

text \<open>
  C3, as the code has it. For a non-empty query \<open>getFilteredRecipes\<close> keeps an entry
  exactly when the query as it was passed is a substring of the lower-cased recipe name,
  of some lower-cased ingredient name or of some lower-cased dietary-preference tag.
  This is the specification's case-insensitive match when the query is in lower case
  already, and \<open>handleSearch\<close>, which lower-cases the trimmed search value before the
  call, matches case-insensitively for every search value.
\<close>

theorem getFilteredRecipes_query_as_passed:
  "(q \<noteq> [] \<longrightarrow>
      getFilteredRecipes rs (Some q) =
        filter (\<lambda>r. str_includes (toLowerCase (name r)) q
                  \<or> list_ex (\<lambda>i. str_includes (toLowerCase (ri_name i)) q) (ingredients r)
                  \<or> list_ex (\<lambda>d. str_includes (toLowerCase d) q) (dietaryPreference r)) rs)
   \<and> (q \<noteq> [] \<and> toLowerCase q = q \<longrightarrow>
        getFilteredRecipes rs (Some q) = filter (spec_matchesIgnoringCase q) rs)
   \<and> handleSearch rs searchVal =
       (if trim searchVal = [] then rs
        else filter (spec_matchesIgnoringCase (trim searchVal)) rs)"
proof (intro conjI impI)
  assume "q \<noteq> []"
  then show "getFilteredRecipes rs (Some q) =
        filter (\<lambda>r. str_includes (toLowerCase (name r)) q
                  \<or> list_ex (\<lambda>i. str_includes (toLowerCase (ri_name i)) q) (ingredients r)
                  \<or> list_ex (\<lambda>d. str_includes (toLowerCase d) q) (dietaryPreference r)) rs"
    by (auto simp: getFilteredRecipes_def Let_def list_ex_iff filter_empty_conv
          intro!: filter_cong)
next
  assume "q \<noteq> [] \<and> toLowerCase q = q"
  then show "getFilteredRecipes rs (Some q) = filter (spec_matchesIgnoringCase q) rs"
    by (auto simp: getFilteredRecipes_def Let_def list_ex_iff filter_empty_conv
          spec_matchesIgnoringCase_def intro!: filter_cong)
next
  show "handleSearch rs searchVal =
       (if trim searchVal = [] then rs
        else filter (spec_matchesIgnoringCase (trim searchVal)) rs)"
    by (auto simp: handleSearch_def getFilteredRecipes_def Let_def list_ex_iff
          filter_empty_conv spec_matchesIgnoringCase_def toLowerCase_Nil intro!: filter_cong)
qed

theorem getFilteredRecipes_query_as_passed_witness:
  "''tomato'' \<noteq> [] \<and> toLowerCase ''tomato'' = ''tomato''
   \<and> map recipe_id
       (getFilteredRecipes [exampleView ''r1'' ''Salad'' [''Tomato'']] (Some ''tomato''))
     = [''r1'']
   \<and> getFilteredRecipes [exampleView ''r1'' ''Salad'' [''Tomato'']] (Some ''tomato'')
     = filter (spec_matchesIgnoringCase ''tomato'') [exampleView ''r1'' ''Salad'' [''Tomato'']]"
proof -
  have a: "''tomato'' \<noteq> []" by simp
  have b: "toLowerCase ''tomato'' = ''tomato''" by code_simp
  have c: "map recipe_id
       (getFilteredRecipes [exampleView ''r1'' ''Salad'' [''Tomato'']] (Some ''tomato''))
     = [''r1'']" by code_simp
  from getFilteredRecipes_query_as_passed
    [of "''tomato''" "[exampleView ''r1'' ''Salad'' [''Tomato'']]" "[]"] a b c
  show ?thesis by blast
qed

text \<open>
  C3 as stated fails: the query \<open>Tomato\<close> does not match an ingredient named \<open>tomato\<close>,
  which the case-insensitive match of the specification keeps.
\<close>

theorem getFilteredRecipes_query_case_counterexample:
  "getFilteredRecipes [exampleView ''r1'' ''Salad'' [''tomato'']] (Some ''Tomato'') = []
   \<and> map recipe_id
       (filter (spec_matchesIgnoringCase ''Tomato'') [exampleView ''r1'' ''Salad'' [''tomato'']])
     = [''r1'']"
  by code_simp

subsection \<open>Accented capitals\<close>

text \<open>The search and the validation gate lower-case the accented capitals of Latin-1 as
  well: a search for the upper-case word finds the lower-case name, a query that is a
  capital is not found in the lower-cased name, and an upper-case spelling of a catalog
  name is recognised as already available.\<close>

lemma latin1_examples:
  "map recipe_id (handleSearch [exampleView ''r1'' (CHR 0xE9 # ''clair'') []]
      (CHR 0xC9 # ''CLAIR'')) = [''r1'']"
  "getFilteredRecipes [exampleView ''r1'' (CHR 0xC9 # ''clair'') []] (Some [CHR 0xC9]) = []"
  "validatorCalls (handleSubmit examplePlural exampleSingular
      [\<lparr>cat_id = ''c3'', cat_name = ''jalape'' @ [CHR 0xF1, CHR ''o''], createdBy = None,
        cat_createdAt = []\<rparr>]
      (exampleDialog (''JALAPE'' @ [CHR 0xD1, CHR ''O''])) Rejected) = []"
  by code_simp+

end
